theory Spec2Isabelle
  imports
    Complex_Main
    "HOL-Library.Multiset"
    "HOL-Library.Char_ord"
    "HOL-Library.List_Lexorder"
    "HOL-Library.Product_Lexorder"
    "HOL-Library.AList"
begin

section \<open>AutoBudget ML service: the four analysis endpoints of \<^verbatim>\<open>app/main.py\<close>\<close>

text \<open>
  The service has four POST endpoints, each a function of the posted transaction list:
  \<^verbatim>\<open>train_spending_model\<close>, \<^verbatim>\<open>predict_expenses\<close>, \<^verbatim>\<open>detect_anomalies\<close> and
  \<^verbatim>\<open>forecast_income\<close>. Conventions of the embedding:

  \<^item> Python floats are modelled as exact reals: sums, means, the standard deviation and
    \<^verbatim>\<open>round(x, 2)\<close> are the mathematical operations, without IEEE rounding, NaN or infinity.
  \<^item> \<^verbatim>\<open>pd.to_datetime\<close> is library code. It is a parameter \<open>to_datetime\<close> of every endpoint:
    applied to the whole date column it either raises (\<open>None\<close>) or yields the parsed
    column. Missing dates (pandas' NaT) are outside the model.
    A date string is taken to denote the same timestamp at every call.
  \<^item> \<^verbatim>\<open>sort_values\<close> is library code as well, and pandas' default sorting algorithm is not
    stable. It is a parameter \<open>sort_values\<close> of every endpoint, of which the properties
    assume only that it returns the rows it is given in ascending order of date
    (\<open>sorts_by_date\<close>); the order it gives to rows of equal date is left open.
  \<^item> Exceptions are values: every endpoint returns \<open>exn + response\<close>, and the
    \<^verbatim>\<open>try: ... except Exception as e:\<close> that wraps every endpoint body is the function
    \<open>except_Exception\<close>.
  \<^item> The state of the service process that outlives a request is NumPy's process-wide
    random generator, which \<^verbatim>\<open>np.random.normal\<close> reads and advances. It is modelled as the
    sequence of the samples it will deliver. Every endpoint, and every endpoint body, is a
    procedure on that state: it takes the generator and returns it as the call left it.
  \<^item> Logging does not influence a response and is left out.
\<close>

subsection \<open>Request and response models\<close>

record Transaction =
  amount :: real
  date :: string
  category :: string
  type :: string

record TransactionData =
  transactions :: "Transaction list"

text \<open>A parsed date (a pandas \<^verbatim>\<open>Timestamp\<close>): calendar date and nanosecond of the day.\<close>

record Timestamp =
  ts_year :: int
  ts_month :: nat
  ts_day :: nat
  ts_nanos :: nat

text \<open>
  The dictionaries in \<^verbatim>\<open>predictions\<close>: the summary record of \<^verbatim>\<open>train_spending_model\<close>
  and the monthly record of \<^verbatim>\<open>predict_expenses\<close>. A month (a pandas \<^verbatim>\<open>Period\<close> of
  frequency M) is its ordinal \<open>12 * year + (month - 1)\<close>; \<^verbatim>\<open>str(next_month)\<close> prints that
  ordinal as year and month. \<^verbatim>\<open>by_category\<close> is a Python dict, kept in insertion order.
\<close>

datatype prediction =
  Summary (average_monthly_spending: real) (recent_trend: real) (prediction_confidence: real)
| Monthly (month: int) (total_predicted_expenses: real) (by_category: "(string \<times> real) list")

record PredictionResponse =
  predictions :: "prediction list"
  model_accuracy :: "real option"
  message :: string

text \<open>
  An anomaly dictionary. Its \<^verbatim>\<open>date\<close>, \<^verbatim>\<open>amount\<close> and \<^verbatim>\<open>category\<close> keys are the fields
  \<open>a_date\<close>, \<open>a_amount\<close> and \<open>a_category\<close>; \<^verbatim>\<open>expected_range\<close> is the pair of fields
  \<open>expected_min\<close> and \<open>expected_max\<close>. \<^verbatim>\<open>isoformat()\<close> prints the timestamp, which is
  kept as it is.
\<close>

record Anomaly =
  a_date :: Timestamp
  a_amount :: real
  a_category :: string
  z_score :: real
  expected_min :: real
  expected_max :: real
  severity :: string

record AnomalyResponse =
  anomalies :: "Anomaly list"
  total_anomalies :: nat
  a_message :: string

record ForecastPoint =
  f_month :: int
  predicted_income :: real
  confidence_lower :: real
  confidence_upper :: real

record ForecastResponse =
  forecast :: "ForecastPoint list"
  confidence_interval :: "(string \<times> real list) list option"
  f_message :: string

subsection \<open>Exceptions\<close>

text \<open>
  \<^verbatim>\<open>HTTPException(status_code, detail)\<close> is an \<^verbatim>\<open>Exception\<close>. The detail is either a
  literal or \<^verbatim>\<open>str(e)\<close> of a caught exception, kept symbolically. \<open>ValueError\<close> is what
  pandas raises on a date column it cannot parse. \<open>ZeroDivisionError\<close> stands for a
  division by zero (numpy would go on with inf or nan, which the reals do not have) and
  \<open>IndexError\<close> for \<^verbatim>\<open>iloc\<close> out of range.
\<close>

datatype exn =
  HTTPException (status_code: nat) (detail: detail)
| ValueError
| ZeroDivisionError
| IndexError
and detail =
  Text string
| Str exn

definition except_Exception :: "exn + 'a \<Rightarrow> exn + 'a" where
  "except_Exception r = (case r of Inl e \<Rightarrow> Inl (HTTPException 500 (Str e)) | Inr v \<Rightarrow> Inr v)"

subsection \<open>The pandas and numpy operations the endpoints use\<close>

type_synonym parser = "string list \<Rightarrow> Timestamp list option"

text \<open>A row of the DataFrame after \<^verbatim>\<open>df['date'] = pd.to_datetime(df['date'])\<close>.\<close>

record Row =
  col_amount :: real
  col_date :: Timestamp
  col_category :: string
  col_type :: string

definition mk_row :: "Transaction \<Rightarrow> Timestamp \<Rightarrow> Row" where
  "mk_row t d = \<lparr>col_amount = amount t, col_date = d, col_category = category t, col_type = type t\<rparr>"

text \<open>
  \<^verbatim>\<open>df = pd.DataFrame([t.dict() for t in data.transactions]); df['date'] = pd.to_datetime(df['date'])\<close>.
  Assigning a column of another length raises.
\<close>

definition DataFrame :: "parser \<Rightarrow> Transaction list \<Rightarrow> Row list option" where
  "DataFrame to_datetime ts =
     (case to_datetime (map date ts) of
        None \<Rightarrow> None
      | Some ds \<Rightarrow> if length ds = length ts then Some (map2 mk_row ts ds) else None)"

definition ts_key :: "Timestamp \<Rightarrow> int \<times> nat \<times> nat \<times> nat" where
  "ts_key d = (ts_year d, ts_month d, ts_day d, ts_nanos d)"

text \<open>
  \<^verbatim>\<open>DataFrame.sort_values('date')\<close>, and what is assumed of it: the result holds the same
  rows, in ascending order of date.
\<close>

type_synonym sorter = "Row list \<Rightarrow> Row list"

definition sorts_by_date :: "sorter \<Rightarrow> bool" where
  "sorts_by_date sort_values \<longleftrightarrow>
     (\<forall>df. mset (sort_values df) = mset df \<and> sorted (map (\<lambda>r. ts_key (col_date r)) (sort_values df)))"

text \<open>\<^verbatim>\<open>df[df['type'] == kind].sort_values('date')\<close>\<close>

definition select_kind :: "sorter \<Rightarrow> string \<Rightarrow> Row list \<Rightarrow> Row list" where
  "select_kind sort_values kind df = sort_values (filter (\<lambda>r. col_type r = kind) df)"

text \<open>\<^verbatim>\<open>df['date'].dt.to_period('M')\<close>\<close>

definition to_period_M :: "Timestamp \<Rightarrow> int" where
  "to_period_M d = 12 * ts_year d + (int (ts_month d) - 1)"

definition col_month :: "Row \<Rightarrow> int" where
  "col_month r = to_period_M (col_date r)"

text \<open>\<^verbatim>\<open>np.mean\<close>, \<^verbatim>\<open>Series.mean\<close>; on an empty list numpy gives nan, HOL gives 0.\<close>

definition mean :: "real list \<Rightarrow> real" where
  "mean xs = sum_list xs / real (length xs)"

text \<open>\<^verbatim>\<open>np.std\<close>: the population standard deviation.\<close>

definition std :: "real list \<Rightarrow> real" where
  "std xs = sqrt (mean (map (\<lambda>x. \<bar>x - mean xs\<bar> ^ 2) xs))"

text \<open>\<^verbatim>\<open>Series.tail(n)\<close>\<close>

definition tail :: "nat \<Rightarrow> 'a list \<Rightarrow> 'a list" where
  "tail n xs = drop (length xs - n) xs"

text \<open>
  \<^verbatim>\<open>df.groupby(key)['amount'].sum()\<close> and \<^verbatim>\<open>.mean()\<close>: one entry per key, keys ascending,
  over the rows of that key.
\<close>

definition groupby :: "('a \<Rightarrow> 'k::linorder) \<Rightarrow> (real list \<Rightarrow> real) \<Rightarrow> ('a \<Rightarrow> real) \<Rightarrow> 'a list \<Rightarrow> ('k \<times> real) list" where
  "groupby key agg val df =
     map (\<lambda>k. (k, agg (map val (filter (\<lambda>r. key r = k) df)))) (sort (remdups (map key df)))"

text \<open>\<^verbatim>\<open>Series.unique()\<close>: the distinct values in order of first appearance.\<close>

fun unique_from :: "'a list \<Rightarrow> 'a list \<Rightarrow> 'a list" where
  "unique_from seen [] = []"
| "unique_from seen (x # xs) =
     (if x \<in> set seen then unique_from seen xs else x # unique_from (x # seen) xs)"

definition unique :: "'a list \<Rightarrow> 'a list" where
  "unique xs = unique_from [] xs"

text \<open>\<^verbatim>\<open>Series.max()\<close> of a non-empty column.\<close>

definition maximum :: "int list \<Rightarrow> int" where
  "maximum xs = fold max (tl xs) (hd xs)"

text \<open>\<^verbatim>\<open>np.arange(n)\<close>\<close>

definition arange :: "nat \<Rightarrow> real list" where
  "arange n = map real [0..<n]"

text \<open>
  \<^verbatim>\<open>np.polyfit(x, y, 1)\<close>: the coefficients, slope first, of the least-squares line
  through the points.
\<close>

definition polyfit1 :: "real list \<Rightarrow> real list \<Rightarrow> real \<times> real" where
  "polyfit1 xs ys =
     (let xm = mean xs; ym = mean ys;
          sxy = (\<Sum>(x, y)\<leftarrow>zip xs ys. (x - xm) * (y - ym));
          sxx = (\<Sum>x\<leftarrow>xs. (x - xm) ^ 2);
          slope = sxy / sxx
      in (slope, ym - slope * xm))"

text \<open>Python's \<^verbatim>\<open>round(x, 2)\<close>: to the nearest hundredth, a tie to the even one.\<close>

definition round2 :: "real \<Rightarrow> real" where
  "round2 x =
     (let y = x * 100; f = \<lfloor>y\<rfloor>; d = y - of_int f
      in of_int (if d < 1 / 2 then f else if 1 / 2 < d then f + 1
                 else if even f then f else f + 1) / 100)"

text \<open>\<^verbatim>\<open>np.random.normal(loc, scale)\<close>: the next sample of the generator.\<close>

type_synonym rng = "nat \<Rightarrow> real"

definition random_normal :: "real \<Rightarrow> real \<Rightarrow> rng \<Rightarrow> real \<times> rng" where
  "random_normal loc scale g = (g 0, \<lambda>n. g (Suc n))"

text \<open>\<^verbatim>\<open>f"{n}"\<close> for a natural number.\<close>

fun str_nat :: "nat \<Rightarrow> string" where
  "str_nat n = (if n < 10 then [''0123456789'' ! n] else str_nat (n div 10) @ [''0123456789'' ! (n mod 10)])"

declare str_nat.simps [simp del]

subsection \<open>\<^verbatim>\<open>train_spending_model\<close>\<close>

definition train_spending_model_body ::
  "parser \<Rightarrow> sorter \<Rightarrow> rng \<Rightarrow> TransactionData \<Rightarrow> (exn + PredictionResponse) \<times> rng" where
  "train_spending_model_body to_datetime sort_values g data =
     (if transactions data = [] then
        (Inl (HTTPException 400 (Text ''No transaction data provided'')), g)
      else case DataFrame to_datetime (transactions data) of
        None \<Rightarrow> (Inl ValueError, g)
      | Some df0 \<Rightarrow>
          let df = select_kind sort_values ''expense'' df0 in
          if length df < 3 then
            (Inr \<lparr>predictions = [], model_accuracy = None,
                  message = ''Insufficient data for training. Need at least 3 transactions.''\<rparr>, g)
          else
            let monthly_spending = groupby col_month sum_list col_amount df in
            if length monthly_spending < 2 then
              (Inr \<lparr>predictions = [], model_accuracy = None,
                    message = ''Need at least 2 months of data for training''\<rparr>, g)
            else
              let avg_spending = mean (map snd monthly_spending);
                  recent_trend = mean (tail 3 (map snd monthly_spending))
              in (Inr \<lparr>predictions = [Summary avg_spending recent_trend (75 / 100)],
                       model_accuracy = Some (75 / 100),
                       message = ''Model trained successfully''\<rparr>, g))"

definition train_spending_model ::
  "parser \<Rightarrow> sorter \<Rightarrow> rng \<Rightarrow> TransactionData \<Rightarrow> (exn + PredictionResponse) \<times> rng" where
  "train_spending_model to_datetime sort_values g data =
     (case train_spending_model_body to_datetime sort_values g data of
        (r, g') \<Rightarrow> (except_Exception r, g'))"

subsection \<open>\<^verbatim>\<open>predict_expenses\<close>\<close>

text \<open>
  The inner loop \<^verbatim>\<open>for category, avg_amount in category_avg.items()\<close>, with the
  dictionary \<^verbatim>\<open>month_predictions\<close>, the running \<^verbatim>\<open>total\<close> (here \<open>tot\<close>) and the generator as
  state.
\<close>

fun category_loop ::
  "(string \<times> real) list \<Rightarrow> (string \<times> real) list \<Rightarrow> real \<Rightarrow> rng \<Rightarrow> (string \<times> real) list \<times> real \<times> rng" where
  "category_loop [] month_predictions tot g = (month_predictions, tot, g)"
| "category_loop ((cat, avg_amount) # rest) month_predictions tot g =
     (case random_normal 0 (1 / 10) g of (eps, g') \<Rightarrow>
        let predicted_amount = avg_amount * (1 + eps) in
        category_loop rest (AList.update cat predicted_amount month_predictions)
          (tot + predicted_amount) g')"

text \<open>The outer loop \<^verbatim>\<open>for i in range(1, 4)\<close>.\<close>

fun month_loop ::
  "nat list \<Rightarrow> (string \<times> real) list \<Rightarrow> int \<Rightarrow> rng \<Rightarrow> prediction list \<times> rng" where
  "month_loop [] category_avg last_month g = ([], g)"
| "month_loop (i # is) category_avg last_month g =
     (case category_loop category_avg [] 0 g of (month_predictions, tot, g') \<Rightarrow>
        case month_loop is category_avg last_month g' of (rest, g'') \<Rightarrow>
          (Monthly (last_month + int i) (round2 tot)
             (map (\<lambda>(k, v). (k, round2 v)) month_predictions) # rest, g''))"

definition predict_expenses_body ::
  "parser \<Rightarrow> sorter \<Rightarrow> rng \<Rightarrow> TransactionData \<Rightarrow> (exn + PredictionResponse) \<times> rng" where
  "predict_expenses_body to_datetime sort_values g data =
     (if transactions data = [] then
        (Inl (HTTPException 400 (Text ''No transaction data provided'')), g)
      else case DataFrame to_datetime (transactions data) of
        None \<Rightarrow> (Inl ValueError, g)
      | Some df0 \<Rightarrow>
          let df = select_kind sort_values ''expense'' df0 in
          if length df < 3 then
            (Inr \<lparr>predictions = [], model_accuracy = None,
                  message = ''Insufficient data for predictions. Need at least 3 transactions.''\<rparr>, g)
          else
            let category_avg = groupby col_category mean col_amount df;
                last_month = maximum (map col_month df)
            in case month_loop [1, 2, 3] category_avg last_month g of (preds, g') \<Rightarrow>
                 (Inr \<lparr>predictions = preds, model_accuracy = Some (80 / 100),
                       message = ''Predictions generated successfully''\<rparr>, g'))"

definition predict_expenses ::
  "parser \<Rightarrow> sorter \<Rightarrow> rng \<Rightarrow> TransactionData \<Rightarrow> (exn + PredictionResponse) \<times> rng" where
  "predict_expenses to_datetime sort_values g data =
     (case predict_expenses_body to_datetime sort_values g data of
        (r, g') \<Rightarrow> (except_Exception r, g'))"

subsection \<open>\<^verbatim>\<open>detect_anomalies\<close>\<close>

text \<open>\<^verbatim>\<open>np.abs((amounts - mean) / std)\<close>; a zero divisor is made explicit.\<close>

definition z_scores :: "real list \<Rightarrow> real \<Rightarrow> real \<Rightarrow> real list option" where
  "z_scores amounts mu sigma =
     (if sigma = 0 then None else Some (map (\<lambda>a. \<bar>(a - mu) / sigma\<bar>) amounts))"

text \<open>\<^verbatim>\<open>category_df.iloc[idx]\<close>\<close>

definition iloc :: "'a list \<Rightarrow> nat \<Rightarrow> 'a option" where
  "iloc df idx = (if idx < length df then Some (df ! idx) else None)"

text \<open>
  The inner loop \<^verbatim>\<open>for idx, z_score in enumerate(z_scores)\<close>; \<open>mu\<close> and \<open>sigma\<close> are
  the source's \<^verbatim>\<open>mean\<close> and \<^verbatim>\<open>std\<close>.
\<close>

fun flag_loop ::
  "Row list \<Rightarrow> real \<Rightarrow> real \<Rightarrow> (nat \<times> real) list \<Rightarrow> Anomaly list \<Rightarrow> exn + Anomaly list" where
  "flag_loop category_df mu sigma [] found = Inr found"
| "flag_loop category_df mu sigma ((idx, z) # rest) found =
     (if z > 2 then
        (case iloc category_df idx of
           None \<Rightarrow> Inl IndexError
         | Some transaction \<Rightarrow>
             flag_loop category_df mu sigma rest
               (found @
                [\<lparr>a_date = col_date transaction,
                  a_amount = col_amount transaction,
                  a_category = col_category transaction,
                  z_score = z,
                  expected_min = mu - 2 * sigma,
                  expected_max = mu + 2 * sigma,
                  severity = (if z > 3 then ''high'' else ''medium'')\<rparr>]))
      else flag_loop category_df mu sigma rest found)"

text \<open>The outer loop \<^verbatim>\<open>for category in df['category'].unique()\<close>.\<close>

fun detect_loop :: "Row list \<Rightarrow> string list \<Rightarrow> Anomaly list \<Rightarrow> exn + Anomaly list" where
  "detect_loop df [] found = Inr found"
| "detect_loop df (cat # rest) found =
     (let category_df = filter (\<lambda>r. col_category r = cat) df in
      if length category_df < 3 then detect_loop df rest found
      else
        let amounts = map col_amount category_df;
            mu = mean amounts;
            sigma = std amounts
        in if sigma = 0 then detect_loop df rest found
           else case z_scores amounts mu sigma of
                  None \<Rightarrow> Inl ZeroDivisionError
                | Some zs \<Rightarrow>
                    (case flag_loop category_df mu sigma (enumerate 0 zs) found of
                       Inl e \<Rightarrow> Inl e
                     | Inr found' \<Rightarrow> detect_loop df rest found'))"

definition detect_anomalies_body ::
  "parser \<Rightarrow> sorter \<Rightarrow> rng \<Rightarrow> TransactionData \<Rightarrow> (exn + AnomalyResponse) \<times> rng" where
  "detect_anomalies_body to_datetime sort_values g data =
     (if transactions data = [] then
        (Inl (HTTPException 400 (Text ''No transaction data provided'')), g)
      else case DataFrame to_datetime (transactions data) of
        None \<Rightarrow> (Inl ValueError, g)
      | Some df0 \<Rightarrow>
          let df = select_kind sort_values ''expense'' df0 in
          if length df < 5 then
            (Inr \<lparr>anomalies = [], total_anomalies = 0,
                  a_message = ''Need at least 5 transactions for anomaly detection''\<rparr>, g)
          else (case detect_loop df (unique (map col_category df)) [] of
                  Inl e \<Rightarrow> (Inl e, g)
                | Inr found \<Rightarrow>
                    (Inr \<lparr>anomalies = found, total_anomalies = length found,
                          a_message = ''Detected '' @ str_nat (length found) @ '' anomalous transactions''\<rparr>, g)))"

definition detect_anomalies ::
  "parser \<Rightarrow> sorter \<Rightarrow> rng \<Rightarrow> TransactionData \<Rightarrow> (exn + AnomalyResponse) \<times> rng" where
  "detect_anomalies to_datetime sort_values g data =
     (case detect_anomalies_body to_datetime sort_values g data of
        (r, g') \<Rightarrow> (except_Exception r, g'))"

subsection \<open>\<^verbatim>\<open>forecast_income\<close>\<close>

text \<open>The loop \<^verbatim>\<open>for i in range(1, 4)\<close> of the forecast.\<close>

definition forecast_point :: "int \<Rightarrow> real \<Rightarrow> real \<Rightarrow> nat \<Rightarrow> nat \<Rightarrow> ForecastPoint" where
  "forecast_point last_month avg_income trend n i =
     (let next_month = last_month + int i;
          predicted = avg_income + trend * real (n + i);
          confidence_margin = avg_income * (1 / 10)
      in \<lparr>f_month = next_month,
          predicted_income = round2 predicted,
          confidence_lower = round2 (predicted - confidence_margin),
          confidence_upper = round2 (predicted + confidence_margin)\<rparr>)"

definition forecast_income_body ::
  "parser \<Rightarrow> sorter \<Rightarrow> rng \<Rightarrow> TransactionData \<Rightarrow> (exn + ForecastResponse) \<times> rng" where
  "forecast_income_body to_datetime sort_values g data =
     (if transactions data = [] then
        (Inl (HTTPException 400 (Text ''No transaction data provided'')), g)
      else case DataFrame to_datetime (transactions data) of
        None \<Rightarrow> (Inl ValueError, g)
      | Some df0 \<Rightarrow>
          let df = select_kind sort_values ''income'' df0 in
          if length df < 3 then
            (Inr \<lparr>forecast = [], confidence_interval = None,
                  f_message = ''Insufficient income data for forecasting. Need at least 3 income transactions.''\<rparr>, g)
          else
            let monthly_income = groupby col_month sum_list col_amount df in
            if length monthly_income < 2 then
              (Inr \<lparr>forecast = [], confidence_interval = None,
                    f_message = ''Need at least 2 months of income data''\<rparr>, g)
            else
              let incomes = map snd monthly_income;
                  avg_income = mean incomes;
                  x = arange (length incomes);
                  trend = fst (polyfit1 x incomes);
                  last_month = maximum (map fst monthly_income)
              in (Inr \<lparr>forecast = map (forecast_point last_month avg_income trend (length incomes)) [1, 2, 3],
                       confidence_interval = None,
                       f_message = ''Income forecast generated successfully''\<rparr>, g))"

definition forecast_income ::
  "parser \<Rightarrow> sorter \<Rightarrow> rng \<Rightarrow> TransactionData \<Rightarrow> (exn + ForecastResponse) \<times> rng" where
  "forecast_income to_datetime sort_values g data =
     (case forecast_income_body to_datetime sort_values g data of
        (r, g') \<Rightarrow> (except_Exception r, g'))"

subsection \<open>The application: one route per operation\<close>

datatype operation = TrainSpendingModel | PredictExpenses | DetectAnomalies | ForecastIncome

datatype response =
  Prediction PredictionResponse
| Anomalies AnomalyResponse
| Forecast ForecastResponse

text \<open>
  A request is served with the generator in its current state; the reply is the response
  or the exception the endpoint raised, and the generator as the endpoint left it.
\<close>

definition serve ::
  "parser \<Rightarrow> sorter \<Rightarrow> operation \<Rightarrow> rng \<Rightarrow> TransactionData \<Rightarrow> (exn + response) \<times> rng" where
  "serve to_datetime sort_values op g data =
     (case op of
        TrainSpendingModel \<Rightarrow>
          (case train_spending_model to_datetime sort_values g data of
             (r, g') \<Rightarrow> (map_sum id Prediction r, g'))
      | PredictExpenses \<Rightarrow>
          (case predict_expenses to_datetime sort_values g data of
             (r, g') \<Rightarrow> (map_sum id Prediction r, g'))
      | DetectAnomalies \<Rightarrow>
          (case detect_anomalies to_datetime sort_values g data of
             (r, g') \<Rightarrow> (map_sum id Anomalies r, g'))
      | ForecastIncome \<Rightarrow>
          (case forecast_income to_datetime sort_values g data of
             (r, g') \<Rightarrow> (map_sum id Forecast r, g')))"

subsection \<open>A date parser and a sorting function for concrete inputs\<close>

text \<open>
  Dates written \<^verbatim>\<open>YYYY-MM-DD\<close> are parsed by \<^verbatim>\<open>pd.to_datetime\<close> to midnight of that day;
  a column holding a string of another shape is rejected here.
\<close>

definition digit :: "char \<Rightarrow> nat option" where
  "digit c = (let n = (of_char c :: nat) in if 48 \<le> n \<and> n \<le> 57 then Some (n - 48) else None)"

definition days_in_month :: "nat \<Rightarrow> nat \<Rightarrow> nat" where
  "days_in_month y m =
     (if m = 2 then (if y mod 4 = 0 \<and> (y mod 100 \<noteq> 0 \<or> y mod 400 = 0) then 29 else 28)
      else if m = 4 \<or> m = 6 \<or> m = 9 \<or> m = 11 then 30 else 31)"

definition parse_iso_date :: "string \<Rightarrow> Timestamp option" where
  "parse_iso_date s =
     (if length s = 10 \<and> s ! 4 = CHR ''-'' \<and> s ! 7 = CHR ''-'' then
        (case (digit (s ! 0), digit (s ! 1), digit (s ! 2), digit (s ! 3),
               digit (s ! 5), digit (s ! 6), digit (s ! 8), digit (s ! 9)) of
           (Some a, Some b, Some c, Some d, Some e, Some f, Some g, Some h) \<Rightarrow>
             (let y = 1000 * a + 100 * b + 10 * c + d; m = 10 * e + f; dd = 10 * g + h
              in if 1 \<le> m \<and> m \<le> 12 \<and> 1 \<le> dd \<and> dd \<le> days_in_month y m
                 then Some \<lparr>ts_year = int y, ts_month = m, ts_day = dd, ts_nanos = 0\<rparr>
                 else None)
         | _ \<Rightarrow> None)
      else None)"

definition iso_to_datetime :: parser where
  "iso_to_datetime col = those (map parse_iso_date col)"

text \<open>Sorting by insertion, which keeps rows of equal date in the order it finds them.\<close>

definition insertion_sort_values :: sorter where
  "insertion_sort_values df = sort_key (\<lambda>r. ts_key (col_date r)) df"

definition tx :: "real \<Rightarrow> string \<Rightarrow> string \<Rightarrow> string \<Rightarrow> Transaction" where
  "tx a d c k = \<lparr>amount = a, date = d, category = c, type = k\<rparr>"

section \<open>Notions of the specification\<close>

subsection \<open>The transactions of one kind, and their months\<close>

text \<open>
  The transactions of a kind are counted and dated in the parsed frame, as the code does
  (\<^verbatim>\<open>len(df)\<close> after \<^verbatim>\<open>pd.to_datetime\<close> and the filter): \<open>rows_of_kind\<close> is the list of
  the rows of that kind, in the order of the request. A request whose date column does not
  parse has no frame, hence no rows of any kind.
\<close>

definition rows_of_kind :: "string \<Rightarrow> parser \<Rightarrow> TransactionData \<Rightarrow> Row list" where
  "rows_of_kind kind to_datetime data =
     (case DataFrame to_datetime (transactions data) of
        None \<Rightarrow> []
      | Some df0 \<Rightarrow> filter (\<lambda>r. col_type r = kind) df0)"

text \<open>The calendar months that the rows span, and the sum of the amounts of one month.\<close>

definition months :: "Row list \<Rightarrow> int set" where
  "months rs = col_month ` set rs"

definition month_sum :: "Row list \<Rightarrow> int \<Rightarrow> real" where
  "month_sum rs m = (\<Sum>r\<leftarrow>filter (\<lambda>r. col_month r = m) rs. col_amount r)"

text \<open>
  \<open>latest n M L\<close>: \<open>L\<close> is the set of the last \<open>n\<close> months of \<open>M\<close>, or all of \<open>M\<close> when it
  has fewer than \<open>n\<close> months.
\<close>

definition latest :: "nat \<Rightarrow> int set \<Rightarrow> int set \<Rightarrow> bool" where
  "latest n M L \<longleftrightarrow> L \<subseteq> M \<and> card L = min n (card M) \<and> (\<forall>a\<in>L. \<forall>b\<in>M - L. b < a)"

subsection \<open>Anomalies\<close>

text \<open>The amounts of the rows of one category.\<close>

definition category_amounts :: "Row list \<Rightarrow> string \<Rightarrow> real list" where
  "category_amounts rs c = map col_amount (filter (\<lambda>r. col_category r = c) rs)"

text \<open>
  The z-score of a row among the rows \<open>rs\<close>: the distance of its amount from the mean of its
  category, over the population standard deviation of the category.
\<close>

definition zscore :: "Row list \<Rightarrow> Row \<Rightarrow> real" where
  "zscore rs t =
     \<bar>col_amount t - mean (category_amounts rs (col_category t))\<bar>
       / std (category_amounts rs (col_category t))"

text \<open>
  A row is flagged when its category has at least 3 rows, of standard deviation other than
  0, and its z-score exceeds 2.
\<close>

definition flagged :: "Row list \<Rightarrow> Row \<Rightarrow> bool" where
  "flagged rs t \<longleftrightarrow>
     3 \<le> length (category_amounts rs (col_category t))
     \<and> std (category_amounts rs (col_category t)) \<noteq> 0
     \<and> 2 < zscore rs t"

text \<open>
  The record reported for a flagged row: severity \<open>high\<close> when the z-score exceeds 3 and
  \<open>medium\<close> otherwise, expected range from the mean minus to the mean plus twice the
  standard deviation.
\<close>

definition anomaly_of :: "Row list \<Rightarrow> Row \<Rightarrow> Anomaly" where
  "anomaly_of rs t =
     \<lparr>a_date = col_date t,
      a_amount = col_amount t,
      a_category = col_category t,
      z_score = zscore rs t,
      expected_min = mean (category_amounts rs (col_category t)) - 2 * std (category_amounts rs (col_category t)),
      expected_max = mean (category_amounts rs (col_category t)) + 2 * std (category_amounts rs (col_category t)),
      severity = (if 3 < zscore rs t then ''high'' else ''medium'')\<rparr>"

text \<open>The records of the flagged rows of one category, in the order of the rows.\<close>

definition category_chunk :: "Row list \<Rightarrow> string \<Rightarrow> Anomaly list" where
  "category_chunk df c = map (anomaly_of df) (filter (\<lambda>t. col_category t = c \<and> flagged df t) df)"

subsection \<open>Projected expenses\<close>

text \<open>The categories observed among the rows, in ascending order, and the mean amount of one.\<close>

definition categories :: "Row list \<Rightarrow> string list" where
  "categories rs = sorted_list_of_set (col_category ` set rs)"

definition category_mean :: "Row list \<Rightarrow> string \<Rightarrow> real" where
  "category_mean rs c = mean (category_amounts rs c)"

text \<open>
  The amounts predicted for one month from the averages \<open>avgs\<close>, when the generator delivers
  the samples \<open>g k\<close>, \<open>g (k + 1)\<close>, ...: each average times one plus the sample drawn for it.
\<close>

definition perturb :: "rng \<Rightarrow> nat \<Rightarrow> (string \<times> real) list \<Rightarrow> (string \<times> real) list" where
  "perturb g k avgs = map (\<lambda>(j, (c, a)). (c, a * (1 + g j))) (enumerate k avgs)"

text \<open>
  The amounts predicted for the \<open>i\<close>-th month ahead (counted from 0) from the rows \<open>rs\<close>: for
  each category, \<open>category_mean \<times> (1 + \<epsilon>)\<close>, where \<open>\<epsilon>\<close> is the sample drawn for that category
  and month. Every month draws one sample per category.
\<close>

definition projected :: "Row list \<Rightarrow> rng \<Rightarrow> nat \<Rightarrow> (string \<times> real) list" where
  "projected rs g i =
     perturb g (i * length (categories rs)) (map (\<lambda>c. (c, category_mean rs c)) (categories rs))"

text \<open>
  The prediction record of a month: the sum of the amounts rounded to 2 decimals, and each
  amount rounded to 2 decimals; \<open>monthly\<close> from given averages, \<open>predicted\<close> from the rows.
\<close>

definition monthly :: "(string \<times> real) list \<Rightarrow> int \<Rightarrow> rng \<Rightarrow> nat \<Rightarrow> nat \<Rightarrow> prediction" where
  "monthly avgs last_month g k i =
     Monthly (last_month + int i) (round2 (sum_list (map snd (perturb g k avgs))))
       (map (\<lambda>(c, v). (c, round2 v)) (perturb g k avgs))"

definition predicted :: "Row list \<Rightarrow> rng \<Rightarrow> int \<Rightarrow> nat \<Rightarrow> prediction" where
  "predicted rs g last_month i =
     Monthly (last_month + int (Suc i)) (round2 (sum_list (map snd (projected rs g i))))
       (map (\<lambda>(c, v). (c, round2 v)) (projected rs g i))"

section \<open>Concrete requests\<close>

text \<open>A generator that delivers the sample 0 at every draw.\<close>

definition zero_noise :: rng where
  "zero_noise n = 0"

text \<open>Five expenses over four months of 2024, and one income.\<close>

definition spending_example :: TransactionData where
  "spending_example = \<lparr>transactions =
     [tx 10 ''2024-01-05'' ''food'' ''expense'',
      tx 40 ''2024-03-02'' ''rent'' ''expense'',
      tx 20 ''2024-01-20'' ''rent'' ''expense'',
      tx 1000 ''2024-02-01'' ''salary'' ''income'',
      tx 30 ''2024-02-11'' ''food'' ''expense'',
      tx 50 ''2024-04-09'' ''food'' ''expense'']\<rparr>"

text \<open>A row at midnight of a day.\<close>

definition row :: "real \<Rightarrow> int \<Rightarrow> nat \<Rightarrow> nat \<Rightarrow> string \<Rightarrow> string \<Rightarrow> Row" where
  "row a y m d c k = \<lparr>col_amount = a, col_date = \<lparr>ts_year = y, ts_month = m, ts_day = d, ts_nanos = 0\<rparr>,
     col_category = c, col_type = k\<rparr>"

text \<open>
  Ten expenses and one income. The category food has the amounts 10, 10, 10, 12, 12 and 24
  (mean 13, standard deviation 5), rent has three times 500, misc has one expense.
\<close>

definition anomaly_example :: TransactionData where
  "anomaly_example = \<lparr>transactions =
     [tx 12 ''2024-04-04'' ''food'' ''expense'',
      tx 500 ''2024-02-02'' ''rent'' ''expense'',
      tx 10 ''2024-02-03'' ''food'' ''expense'',
      tx 24 ''2024-03-14'' ''food'' ''expense'',
      tx 3000 ''2024-02-28'' ''salary'' ''income'',
      tx 500 ''2024-03-02'' ''rent'' ''expense'',
      tx 10 ''2024-02-17'' ''food'' ''expense'',
      tx 7 ''2024-03-20'' ''misc'' ''expense'',
      tx 12 ''2024-03-03'' ''food'' ''expense'',
      tx 500 ''2024-04-02'' ''rent'' ''expense'',
      tx 10 ''2024-04-09'' ''food'' ''expense'']\<rparr>"

definition anomaly_example_record :: Anomaly where
  "anomaly_example_record =
     \<lparr>a_date = \<lparr>ts_year = 2024, ts_month = 3, ts_day = 14, ts_nanos = 0\<rparr>,
      a_amount = 24, a_category = ''food'', z_score = 11 / 5,
      expected_min = 3, expected_max = 23, severity = ''medium''\<rparr>"

definition anomaly_example_response :: AnomalyResponse where
  "anomaly_example_response =
     \<lparr>anomalies = [anomaly_example_record], total_anomalies = 1,
      a_message = ''Detected 1 anomalous transactions''\<rparr>"

text \<open>Two expenses only.\<close>

definition shortfall_example :: TransactionData where
  "shortfall_example = \<lparr>transactions =
     [tx 12 ''2024-04-04'' ''food'' ''expense'',
      tx 500 ''2024-02-02'' ''rent'' ''expense'']\<rparr>"

text \<open>A generator that delivers the sample 1/10 at every draw.\<close>

definition tenth_noise :: rng where
  "tenth_noise n = 1 / 10"

text \<open>Three expenses of 0.004, each of a category of its own.\<close>

definition rounding_example :: TransactionData where
  "rounding_example = \<lparr>transactions =
     [tx (4 / 1000) ''2024-02-03'' ''a'' ''expense'',
      tx (4 / 1000) ''2024-02-04'' ''b'' ''expense'',
      tx (4 / 1000) ''2024-02-05'' ''c'' ''expense'']\<rparr>"

definition rounding_example_response :: PredictionResponse where
  "rounding_example_response =
     \<lparr>predictions =
        [Monthly 24290 (1 / 100) [(''a'', 0), (''b'', 0), (''c'', 0)],
         Monthly 24291 (1 / 100) [(''a'', 0), (''b'', 0), (''c'', 0)],
         Monthly 24292 (1 / 100) [(''a'', 0), (''b'', 0), (''c'', 0)]],
      model_accuracy = Some (80 / 100),
      message = ''Predictions generated successfully''\<rparr>"

section \<open>Properties\<close>

subsection \<open>The exception handler and the empty request\<close>

text \<open>
  C1 (the code departs from the claim). The claim: an empty transaction list yields a
  client error with a 4xx status. Every endpoint raises \<^verbatim>\<open>HTTPException(status_code=400)\<close>
  inside its \<^verbatim>\<open>try\<close> block; \<^verbatim>\<open>HTTPException\<close> is an \<^verbatim>\<open>Exception\<close>, so the handler
  \<^verbatim>\<open>except Exception as e\<close> of the same block catches it and raises
  \<^verbatim>\<open>HTTPException(status_code=500, detail=str(e))\<close>. What the client receives for the
  empty list is therefore the status 500, for each of the four operations.
\<close>

theorem empty_list_status_500:
  "fst (serve to_datetime sort_values op g \<lparr>transactions = []\<rparr>) =
     Inl (HTTPException 500 (Str (HTTPException 400 (Text ''No transaction data provided''))))"
  by (cases op)
    (simp_all add: serve_def train_spending_model_def train_spending_model_body_def
      predict_expenses_def predict_expenses_body_def detect_anomalies_def
      detect_anomalies_body_def forecast_income_def forecast_income_body_def
      except_Exception_def)

subsection \<open>Independence of the random generator\<close>

text \<open>
  The bodies of \<^verbatim>\<open>train_spending_model\<close>, \<^verbatim>\<open>detect_anomalies\<close> and \<^verbatim>\<open>forecast_income\<close>
  return the generator they were given on every path, and their result is the one they
  give under any other generator.
\<close>

lemma train_body_generator:
  "train_spending_model_body to_datetime sort_values g data =
     (fst (train_spending_model_body to_datetime sort_values g' data), g)"
  by (simp add: train_spending_model_body_def Let_def split: option.splits)

lemma detect_body_generator:
  "detect_anomalies_body to_datetime sort_values g data =
     (fst (detect_anomalies_body to_datetime sort_values g' data), g)"
  by (simp add: detect_anomalies_body_def Let_def split: option.splits sum.splits)

lemma forecast_body_generator:
  "forecast_income_body to_datetime sort_values g data =
     (fst (forecast_income_body to_datetime sort_values g' data), g)"
  by (simp add: forecast_income_body_def Let_def split: option.splits)

text \<open>
  C7. \<^verbatim>\<open>train_spending_model\<close>, \<^verbatim>\<open>detect_anomalies\<close> and \<^verbatim>\<open>forecast_income\<close> are
  deterministic. Two calls of an endpoint with the same transaction list differ in the
  state of the process they run in, which is the state \<open>g1\<close> and \<open>g2\<close> of the random
  generator at each call, whatever requests were served in between. Each of the three
  endpoints gives the same response (or raises the same exception) at both calls, and
  leaves the generator as it found it: no randomness influences the three operations.
  The fourth endpoint, \<^verbatim>\<open>predict_expenses\<close>, has the same type and does not have this
  property (\<open>predict_expenses_reads_generator\<close> below).
\<close>

theorem deterministic_operations:
  "fst (train_spending_model to_datetime sort_values g1 data) =
     fst (train_spending_model to_datetime sort_values g2 data)
   \<and> fst (detect_anomalies to_datetime sort_values g1 data) =
     fst (detect_anomalies to_datetime sort_values g2 data)
   \<and> fst (forecast_income to_datetime sort_values g1 data) =
     fst (forecast_income to_datetime sort_values g2 data)
   \<and> snd (train_spending_model to_datetime sort_values g1 data) = g1
   \<and> snd (detect_anomalies to_datetime sort_values g1 data) = g1
   \<and> snd (forecast_income to_datetime sort_values g1 data) = g1"
proof -
  have t: "train_spending_model to_datetime sort_values g data =
      (except_Exception (fst (train_spending_model_body to_datetime sort_values g2 data)), g)" for g
    unfolding train_spending_model_def
    by (subst train_body_generator [where g' = g2]) simp
  have d: "detect_anomalies to_datetime sort_values g data =
      (except_Exception (fst (detect_anomalies_body to_datetime sort_values g2 data)), g)" for g
    unfolding detect_anomalies_def
    by (subst detect_body_generator [where g' = g2]) simp
  have f: "forecast_income to_datetime sort_values g data =
      (except_Exception (fst (forecast_income_body to_datetime sort_values g2 data)), g)" for g
    unfolding forecast_income_def
    by (subst forecast_body_generator [where g' = g2]) simp
  show ?thesis by (simp add: t d f)
qed

subsection \<open>Library facts: sorting, grouping, means\<close>

lemma sorts_by_date_mset: "sorts_by_date sort_values \<Longrightarrow> mset (sort_values df) = mset df"
  by (simp add: sorts_by_date_def)

lemma sorts_by_date_insertion: "sorts_by_date insertion_sort_values"
  by (simp add: sorts_by_date_def insertion_sort_values_def)

lemma mean_mset_cong: "mset xs = mset ys \<Longrightarrow> mean xs = mean ys"
  unfolding mean_def
  by (metis mset_eq_length sum_mset_sum_list)

lemma std_mset_cong:
  assumes "mset xs = mset ys"
  shows "std xs = std ys"
proof -
  have m: "mean xs = mean ys" using assms by (rule mean_mset_cong)
  have "mset (map (\<lambda>x. \<bar>x - mean xs\<bar> ^ 2) xs) = mset (map (\<lambda>x. \<bar>x - mean ys\<bar> ^ 2) ys)"
    using assms m by (metis mset_map)
  then show ?thesis unfolding std_def by (metis mean_mset_cong)
qed

lemma mset_select_kind:
  "sorts_by_date sort_values \<Longrightarrow>
   mset (select_kind sort_values kind df) = mset (filter (\<lambda>r. col_type r = kind) df)"
  by (simp add: select_kind_def sorts_by_date_mset)





lemma maximum_Max: "xs \<noteq> [] \<Longrightarrow> maximum xs = Max (set xs)"
proof (cases xs)
  case Nil
  assume "xs \<noteq> []"
  with Nil show ?thesis by simp
next
  case (Cons a list)
  have "fold max list a = Max (set (a # list))" by (rule Max.set_eq_fold [symmetric])
  with Cons show ?thesis by (simp add: maximum_def)
qed

lemma sort_remdups_map: "sort (remdups (map key df)) = sorted_list_of_set (key ` set df)"
proof -
  have "sort (remdups (map key df)) = sorted_list_of_set (set (map key df))"
    by (simp only: sorted_list_of_set_sort_remdups)
  then show ?thesis by simp
qed

lemma sum_list_filter_mset_cong:
  fixes f :: "'a \<Rightarrow> real"
  assumes "mset xs = mset ys"
  shows "(\<Sum>r\<leftarrow>filter P xs. f r) = (\<Sum>r\<leftarrow>filter P ys. f r)"
proof -
  have "mset (map f (filter P xs)) = mset (map f (filter P ys))"
    using assms by (metis mset_filter mset_map)
  then have "sum_mset (mset (map f (filter P xs))) = sum_mset (mset (map f (filter P ys)))"
    by (rule arg_cong)
  then show ?thesis by (simp only: sum_mset_sum_list)
qed

lemma tail_map: "tail n (map f xs) = map f (tail n xs)"
  by (simp add: tail_def drop_map)

lemma latest_tail:
  assumes "finite M"
  shows "latest n M (set (tail n (sorted_list_of_set M)))"
proof -
  let ?xs = "sorted_list_of_set M"
  let ?k = "length ?xs - n"
  have d: "distinct ?xs" and s: "sorted ?xs" and m: "set ?xs = M"
    using assms by simp_all
  have split: "?xs = take ?k ?xs @ drop ?k ?xs" by simp
  have sw: "sorted_wrt (<) ?xs" using d s by (simp add: strict_sorted_iff)
  have "sorted_wrt (<) (take ?k ?xs @ drop ?k ?xs)" using sw by simp
  then have lt: "\<forall>b\<in>set (take ?k ?xs). \<forall>a\<in>set (drop ?k ?xs). b < a"
    unfolding sorted_wrt_append by blast
  have sub: "set (drop ?k ?xs) \<subseteq> M" using m set_drop_subset by metis
  have "M - set (drop ?k ?xs) \<subseteq> set (take ?k ?xs)"
  proof -
    have "M = set (take ?k ?xs) \<union> set (drop ?k ?xs)"
      by (metis m set_append split)
    then show ?thesis by blast
  qed
  with lt have ord: "\<forall>a\<in>set (drop ?k ?xs). \<forall>b\<in>M - set (drop ?k ?xs). b < a" by blast
  have "card (set (drop ?k ?xs)) = length (drop ?k ?xs)"
    using d by (simp add: distinct_card)
  then have c: "card (set (drop ?k ?xs)) = min n (card M)" by auto
  show ?thesis unfolding latest_def tail_def using sub c ord by blast
qed

lemma mean_map_distinct:
  assumes "distinct ys"
  shows "mean (map g ys) = (\<Sum>m\<in>set ys. g m) / real (card (set ys))"
  using assms by (simp add: mean_def sum_list_distinct_conv_sum_set distinct_card)

lemma distinct_tail: "distinct xs \<Longrightarrow> distinct (tail n xs)"
  by (simp add: tail_def)

subsection \<open>The monthly summary of \<^verbatim>\<open>train_spending_model\<close>\<close>

lemma DataFrame_length: "DataFrame p ts = Some df0 \<Longrightarrow> length df0 = length ts"
  by (auto simp: DataFrame_def split: option.splits if_splits)

lemma rows_of_kind_Some:
  "DataFrame p (transactions d) = Some df0 \<Longrightarrow> rows_of_kind k p d = filter (\<lambda>r. col_type r = k) df0"
  by (simp add: rows_of_kind_def)

lemma rows_of_kind_frame:
  assumes "rows_of_kind k p d \<noteq> []"
  obtains df0 where "DataFrame p (transactions d) = Some df0"
    and "rows_of_kind k p d = filter (\<lambda>r. col_type r = k) df0"
    and "transactions d \<noteq> []"
proof -
  from assms obtain df0 where df0: "DataFrame p (transactions d) = Some df0"
    by (auto simp: rows_of_kind_def split: option.splits)
  have r: "rows_of_kind k p d = filter (\<lambda>r. col_type r = k) df0"
    using df0 by (rule rows_of_kind_Some)
  have "transactions d \<noteq> []"
  proof
    assume "transactions d = []"
    with df0 have "df0 = []" using DataFrame_length by fastforce
    with assms r show False by simp
  qed
  with df0 r show thesis by (rule that)
qed

lemma select_kind_rows:
  assumes "sorts_by_date sort_values" and "DataFrame p (transactions d) = Some df0"
  shows "mset (select_kind sort_values k df0) = mset (rows_of_kind k p d)"
  using assms by (simp add: mset_select_kind rows_of_kind_Some)

lemma monthly_sums_select_kind:
  assumes "mset df = mset E"
  shows "groupby col_month sum_list col_amount df =
           map (\<lambda>m. (m, month_sum E m)) (sorted_list_of_set (months E))"
proof -
  have s: "set df = set E" using assms by (rule mset_eq_setD)
  have "\<And>m. sum_list (map col_amount (filter (\<lambda>r. col_month r = m) df)) = month_sum E m"
    unfolding month_sum_def using assms by (rule sum_list_filter_mset_cong)
  then show ?thesis
    by (simp add: groupby_def sort_remdups_map s months_def)
qed

text \<open>
  C2. For every request with at least 3 expense transactions (rows of the parsed frame)
  whose expenses span at least 2 calendar months, \<^verbatim>\<open>train_spending_model\<close> returns exactly
  one prediction record; its \<^verbatim>\<open>average_monthly_spending\<close> is the arithmetic mean of the
  per-month expense sums, and its \<^verbatim>\<open>recent_trend\<close> is the mean of the sums of the last 3
  of these months, or of all of them when there are only 2. This holds however
  \<^verbatim>\<open>sort_values\<close> orders expenses of equal date, and under every state of the generator.
\<close>

theorem train_spending_model_summary:
  assumes "sorts_by_date sort_values"
    and "3 \<le> length (rows_of_kind ''expense'' to_datetime data)"
    and "2 \<le> card (months (rows_of_kind ''expense'' to_datetime data))"
  shows "\<exists>L. latest 3 (months (rows_of_kind ''expense'' to_datetime data)) L
     \<and> fst (train_spending_model to_datetime sort_values g data) =
         Inr \<lparr>predictions =
                [Summary
                   ((\<Sum>m\<in>months (rows_of_kind ''expense'' to_datetime data).
                        month_sum (rows_of_kind ''expense'' to_datetime data) m)
                    / real (card (months (rows_of_kind ''expense'' to_datetime data))))
                   ((\<Sum>m\<in>L. month_sum (rows_of_kind ''expense'' to_datetime data) m) / real (card L))
                   (75 / 100)],
              model_accuracy = Some (75 / 100),
              message = ''Model trained successfully''\<rparr>"
proof -
  let ?E = "rows_of_kind ''expense'' to_datetime data"
  let ?M = "months ?E"
  let ?ms = "sorted_list_of_set ?M"
  let ?L = "set (tail 3 ?ms)"
  have "?E \<noteq> []" using assms(2) by auto
  then obtain df0 where df0: "DataFrame to_datetime (transactions data) = Some df0"
    and ne: "transactions data \<noteq> []"
    by (rule rows_of_kind_frame)
  let ?df = "select_kind sort_values ''expense'' df0"
  have ms: "mset ?df = mset ?E" using assms(1) df0 by (rule select_kind_rows)
  have len: "length ?df = length ?E" using ms by (rule mset_eq_length)
  have fin: "finite ?M" by (simp add: months_def)
  have gb: "groupby col_month sum_list col_amount ?df = map (\<lambda>m. (m, month_sum ?E m)) ?ms"
    using ms by (rule monthly_sums_select_kind)
  have gl: "length (groupby col_month sum_list col_amount ?df) = card ?M"
    using fin by (simp add: gb)
  have vals: "map snd (groupby col_month sum_list col_amount ?df) = map (month_sum ?E) ?ms"
    by (simp add: gb comp_def)
  have avg: "mean (map (month_sum ?E) ?ms) = (\<Sum>m\<in>?M. month_sum ?E m) / real (card ?M)"
    using fin mean_map_distinct [of ?ms "month_sum ?E"] by simp
  have trend: "mean (tail 3 (map (month_sum ?E) ?ms)) = (\<Sum>m\<in>?L. month_sum ?E m) / real (card ?L)"
    using fin mean_map_distinct [of "tail 3 ?ms" "month_sum ?E"]
    by (simp add: tail_map distinct_tail)
  have lat: "latest 3 ?M ?L" using fin by (rule latest_tail)
  have "fst (train_spending_model to_datetime sort_values g data) =
         Inr \<lparr>predictions =
                [Summary ((\<Sum>m\<in>?M. month_sum ?E m) / real (card ?M))
                   ((\<Sum>m\<in>?L. month_sum ?E m) / real (card ?L)) (75 / 100)],
              model_accuracy = Some (75 / 100),
              message = ''Model trained successfully''\<rparr>"
    using assms(2,3) ne
    by (simp add: train_spending_model_def train_spending_model_body_def except_Exception_def
        df0 Let_def len gl vals avg trend)
  with lat show ?thesis by blast
qed

text \<open>
  The request \<open>spending_example\<close>: the monthly expense sums are 30, 30, 40 and 50, so the
  average is 37.5 and the mean of the last three is 40.
\<close>

lemmas parse_simps = iso_to_datetime_def parse_iso_date_def digit_def days_in_month_def tx_def
  DataFrame_def mk_row_def

lemma spending_frame:
  "DataFrame iso_to_datetime (transactions spending_example) =
     Some [\<lparr>col_amount = 10, col_date = \<lparr>ts_year = 2024, ts_month = 1, ts_day = 5, ts_nanos = 0\<rparr>, col_category = ''food'', col_type = ''expense''\<rparr>,
           \<lparr>col_amount = 40, col_date = \<lparr>ts_year = 2024, ts_month = 3, ts_day = 2, ts_nanos = 0\<rparr>, col_category = ''rent'', col_type = ''expense''\<rparr>,
           \<lparr>col_amount = 20, col_date = \<lparr>ts_year = 2024, ts_month = 1, ts_day = 20, ts_nanos = 0\<rparr>, col_category = ''rent'', col_type = ''expense''\<rparr>,
           \<lparr>col_amount = 1000, col_date = \<lparr>ts_year = 2024, ts_month = 2, ts_day = 1, ts_nanos = 0\<rparr>, col_category = ''salary'', col_type = ''income''\<rparr>,
           \<lparr>col_amount = 30, col_date = \<lparr>ts_year = 2024, ts_month = 2, ts_day = 11, ts_nanos = 0\<rparr>, col_category = ''food'', col_type = ''expense''\<rparr>,
           \<lparr>col_amount = 50, col_date = \<lparr>ts_year = 2024, ts_month = 4, ts_day = 9, ts_nanos = 0\<rparr>, col_category = ''food'', col_type = ''expense''\<rparr>]"
  by (simp add: spending_example_def parse_simps)

lemma spending_nonempty: "transactions spending_example \<noteq> []"
  by (simp add: spending_example_def)

lemma spending_months:
  "months (rows_of_kind ''expense'' iso_to_datetime spending_example) = {24288, 24289, 24290, 24291}"
  by (auto simp: rows_of_kind_def spending_frame months_def col_month_def to_period_M_def)

lemma spending_length: "length (rows_of_kind ''expense'' iso_to_datetime spending_example) = 5"
  by (simp add: rows_of_kind_def spending_frame)

lemma spending_summary:
  "fst (train_spending_model iso_to_datetime insertion_sort_values zero_noise spending_example) =
     Inr \<lparr>predictions = [Summary (75 / 2) 40 (75 / 100)], model_accuracy = Some (75 / 100),
          message = ''Model trained successfully''\<rparr>"
  by (simp add: train_spending_model_def train_spending_model_body_def spending_frame
      spending_nonempty insertion_sort_values_def
      except_Exception_def select_kind_def ts_key_def groupby_def col_month_def to_period_M_def
      mean_def tail_def Let_def)

theorem train_spending_model_summary_witness:
  "sorts_by_date insertion_sort_values
   \<and> 3 \<le> length (rows_of_kind ''expense'' iso_to_datetime spending_example)
   \<and> 2 \<le> card (months (rows_of_kind ''expense'' iso_to_datetime spending_example))
   \<and> (\<exists>L. latest 3 (months (rows_of_kind ''expense'' iso_to_datetime spending_example)) L
     \<and> fst (train_spending_model iso_to_datetime insertion_sort_values zero_noise spending_example) =
         Inr \<lparr>predictions =
                [Summary
                   ((\<Sum>m\<in>months (rows_of_kind ''expense'' iso_to_datetime spending_example).
                        month_sum (rows_of_kind ''expense'' iso_to_datetime spending_example) m)
                    / real (card (months (rows_of_kind ''expense'' iso_to_datetime spending_example))))
                   ((\<Sum>m\<in>L. month_sum (rows_of_kind ''expense'' iso_to_datetime spending_example) m) / real (card L))
                   (75 / 100)],
              model_accuracy = Some (75 / 100),
              message = ''Model trained successfully''\<rparr>)"
proof -
  have a: "sorts_by_date insertion_sort_values" by (rule sorts_by_date_insertion)
  have b: "3 \<le> length (rows_of_kind ''expense'' iso_to_datetime spending_example)"
    by (simp add: spending_length)
  have c: "2 \<le> card (months (rows_of_kind ''expense'' iso_to_datetime spending_example))"
    by (simp add: spending_months)
  from train_spending_model_summary [OF a b c, of zero_noise] a b c show ?thesis by blast
qed

subsection \<open>The anomalies of \<^verbatim>\<open>detect_anomalies\<close>\<close>

lemma mean_nonneg: "(\<And>x. x \<in> set xs \<Longrightarrow> 0 \<le> x) \<Longrightarrow> 0 \<le> mean xs"
  by (simp add: mean_def sum_list_nonneg)

lemma std_nonneg: "0 \<le> std xs"
  unfolding std_def by (rule real_sqrt_ge_zero, rule mean_nonneg) auto

lemma abs_std: "\<bar>std xs\<bar> = std xs"
  using std_nonneg [of xs] by simp

lemma flag_loop_suffix:
  "drop n cdf = ts \<Longrightarrow>
   flag_loop cdf mu sigma (enumerate n (map (\<lambda>a. \<bar>(a - mu) / sigma\<bar>) (map col_amount ts))) found =
     Inr (found @
       map (\<lambda>t. \<lparr>a_date = col_date t, a_amount = col_amount t, a_category = col_category t,
                  z_score = \<bar>(col_amount t - mu) / sigma\<bar>,
                  expected_min = mu - 2 * sigma, expected_max = mu + 2 * sigma,
                  severity = (if 3 < \<bar>(col_amount t - mu) / sigma\<bar> then ''high'' else ''medium'')\<rparr>)
         (filter (\<lambda>t. 2 < \<bar>(col_amount t - mu) / sigma\<bar>) ts))"
proof (induction ts arbitrary: n found)
  case Nil
  then show ?case by simp
next
  case (Cons t ts)
  have n: "n < length cdf"
  proof (rule ccontr)
    assume "\<not> n < length cdf"
    then have "drop n cdf = []" by simp
    with Cons.prems show False by simp
  qed
  then have "cdf ! n # drop (Suc n) cdf = t # ts"
    using Cons.prems by (simp add: Cons_nth_drop_Suc)
  then have t: "cdf ! n = t" and rest: "drop (Suc n) cdf = ts" by simp_all
  show ?case
    using n t Cons.IH [OF rest] by (simp add: iloc_def)
qed

lemma flag_loop_all:
  "flag_loop cdf mu sigma (enumerate 0 (map (\<lambda>a. \<bar>(a - mu) / sigma\<bar>) (map col_amount cdf))) found =
     Inr (found @
       map (\<lambda>t. \<lparr>a_date = col_date t, a_amount = col_amount t, a_category = col_category t,
                  z_score = \<bar>(col_amount t - mu) / sigma\<bar>,
                  expected_min = mu - 2 * sigma, expected_max = mu + 2 * sigma,
                  severity = (if 3 < \<bar>(col_amount t - mu) / sigma\<bar> then ''high'' else ''medium'')\<rparr>)
         (filter (\<lambda>t. 2 < \<bar>(col_amount t - mu) / sigma\<bar>) cdf))"
  by (rule flag_loop_suffix) simp

lemma chunk_empty:
  "length (filter (\<lambda>r. col_category r = c) df) < 3 \<or> std (category_amounts df c) = 0
   \<Longrightarrow> category_chunk df c = []"
  by (auto simp: category_chunk_def flagged_def category_amounts_def filter_empty_conv)

lemma chunk_flagged:
  assumes "std (map col_amount (filter (\<lambda>r. col_category r = c) df)) \<noteq> 0"
    and "\<not> length (filter (\<lambda>r. col_category r = c) df) < 3"
  shows "map (\<lambda>t. \<lparr>a_date = col_date t, a_amount = col_amount t, a_category = col_category t,
                  z_score = \<bar>(col_amount t - mean (map col_amount (filter (\<lambda>r. col_category r = c) df)))
                              / std (map col_amount (filter (\<lambda>r. col_category r = c) df))\<bar>,
                  expected_min = mean (map col_amount (filter (\<lambda>r. col_category r = c) df))
                                 - 2 * std (map col_amount (filter (\<lambda>r. col_category r = c) df)),
                  expected_max = mean (map col_amount (filter (\<lambda>r. col_category r = c) df))
                                 + 2 * std (map col_amount (filter (\<lambda>r. col_category r = c) df)),
                  severity = (if 3 < \<bar>(col_amount t - mean (map col_amount (filter (\<lambda>r. col_category r = c) df)))
                                      / std (map col_amount (filter (\<lambda>r. col_category r = c) df))\<bar>
                              then ''high'' else ''medium'')\<rparr>)
         (filter (\<lambda>t. 2 < \<bar>(col_amount t - mean (map col_amount (filter (\<lambda>r. col_category r = c) df)))
                            / std (map col_amount (filter (\<lambda>r. col_category r = c) df))\<bar>)
            (filter (\<lambda>r. col_category r = c) df))
       = category_chunk df c"
proof -
  let ?am = "map col_amount (filter (\<lambda>r. col_category r = c) df)"
  have f: "filter (\<lambda>t. 2 < \<bar>(col_amount t - mean ?am) / std ?am\<bar>) (filter (\<lambda>r. col_category r = c) df)
         = filter (\<lambda>t. col_category t = c \<and> flagged df t) df"
    unfolding filter_filter
    by (rule filter_cong)
      (use assms in \<open>auto simp: flagged_def zscore_def abs_std category_amounts_def\<close>)
  show ?thesis
    unfolding category_chunk_def f
    by (rule map_cong) (auto simp: anomaly_of_def zscore_def abs_std category_amounts_def)
qed

lemma detect_loop_Cons:
  "detect_loop df (c # cats) found = detect_loop df cats (found @ category_chunk df c)"
proof (cases "length (filter (\<lambda>r. col_category r = c) df) < 3
              \<or> std (map col_amount (filter (\<lambda>r. col_category r = c) df)) = 0")
  case True
  then have "category_chunk df c = []"
    using chunk_empty [of c df] by (simp add: category_amounts_def)
  with True show ?thesis
    by (auto simp: Let_def)
next
  case False
  then have a: "(std (map col_amount (filter (\<lambda>r. col_category r = c) df)) = 0) = False"
    and b: "(length (filter (\<lambda>r. col_category r = c) df) < 3) = False" by auto
  have a': "std (map col_amount (filter (\<lambda>r. col_category r = c) df)) \<noteq> 0"
    and b': "\<not> length (filter (\<lambda>r. col_category r = c) df) < 3" using False by auto
  show ?thesis
    by (simp only: detect_loop.simps Let_def a b if_False z_scores_def option.case
        flag_loop_all sum.case chunk_flagged [OF a' b'])
qed

lemma detect_loop_spec:
  "detect_loop df cats found = Inr (found @ concat (map (category_chunk df) cats))"
  by (induction cats arbitrary: found) (simp_all only: detect_loop_Cons, simp_all)




lemma category_amounts_mset:
  "mset df = mset E \<Longrightarrow> mset (category_amounts df c) = mset (category_amounts E c)"
  unfolding category_amounts_def by (metis mset_filter mset_map)



lemma detect_anomalies_body_cases:
  "detect_anomalies_body p sv g d =
     (if transactions d = [] then (Inl (HTTPException 400 (Text ''No transaction data provided'')), g)
      else case DataFrame p (transactions d) of
        None \<Rightarrow> (Inl ValueError, g)
      | Some df0 \<Rightarrow>
          if length (select_kind sv ''expense'' df0) < 5 then
            (Inr \<lparr>anomalies = [], total_anomalies = 0,
                 a_message = ''Need at least 5 transactions for anomaly detection''\<rparr>, g)
          else
            (Inr \<lparr>anomalies = concat (map (category_chunk (select_kind sv ''expense'' df0))
                                 (unique (map col_category (select_kind sv ''expense'' df0)))),
                 total_anomalies = length (concat (map (category_chunk (select_kind sv ''expense'' df0))
                                 (unique (map col_category (select_kind sv ''expense'' df0))))),
                 a_message = ''Detected '' @ str_nat (length (concat (map (category_chunk (select_kind sv ''expense'' df0))
                                 (unique (map col_category (select_kind sv ''expense'' df0)))))) @ '' anomalous transactions''\<rparr>, g))"
  by (simp add: detect_anomalies_body_def detect_loop_spec Let_def split: option.splits)


text \<open>
  C8. In every successful response of \<^verbatim>\<open>detect_anomalies\<close>, \<^verbatim>\<open>total_anomalies\<close> is the
  length of the list \<^verbatim>\<open>anomalies\<close>; the shortfall response, with the empty list and 0,
  is one of them.
\<close>

theorem total_anomalies_is_length:
  "fst (detect_anomalies to_datetime sort_values g data) = Inr r \<Longrightarrow>
     total_anomalies r = length (anomalies r)"
  by (auto simp: detect_anomalies_def detect_anomalies_body_cases except_Exception_def
      split: if_splits option.splits)

lemma set_all_chunks:
  "a \<in> set (concat (map (category_chunk df) cs)) \<Longrightarrow>
     3 \<le> length (category_amounts df (a_category a)) \<and> std (category_amounts df (a_category a)) \<noteq> 0"
  by (auto simp: category_chunk_def flagged_def anomaly_of_def)

text \<open>
  C6. \<^verbatim>\<open>detect_anomalies\<close> never divides by a standard deviation of 0: its body does not
  raise \<open>ZeroDivisionError\<close>, so that the endpoint does not report it. And every anomaly
  record of a response is of a category with at least 3 expenses whose amounts have a
  nonzero population standard deviation.
\<close>

theorem no_anomaly_without_variation:
  assumes "sorts_by_date sort_values"
  shows "fst (detect_anomalies_body to_datetime sort_values g data) \<noteq> Inl ZeroDivisionError
   \<and> fst (detect_anomalies to_datetime sort_values g data) \<noteq> Inl (HTTPException 500 (Str ZeroDivisionError))
   \<and> (\<forall>r a. fst (detect_anomalies to_datetime sort_values g data) = Inr r \<longrightarrow> a \<in> set (anomalies r) \<longrightarrow>
         3 \<le> length (category_amounts (rows_of_kind ''expense'' to_datetime data) (a_category a))
         \<and> std (category_amounts (rows_of_kind ''expense'' to_datetime data) (a_category a)) \<noteq> 0)"
proof (intro conjI allI impI)
  show "fst (detect_anomalies_body to_datetime sort_values g data) \<noteq> Inl ZeroDivisionError"
    by (simp add: detect_anomalies_body_cases split: option.splits)
  show "fst (detect_anomalies to_datetime sort_values g data) \<noteq> Inl (HTTPException 500 (Str ZeroDivisionError))"
    by (simp add: detect_anomalies_def detect_anomalies_body_cases except_Exception_def
        split: option.splits)
next
  fix r a
  assume r: "fst (detect_anomalies to_datetime sort_values g data) = Inr r" and a: "a \<in> set (anomalies r)"
  let ?E = "rows_of_kind ''expense'' to_datetime data"
  from r obtain df0 where df0: "DataFrame to_datetime (transactions data) = Some df0"
    by (auto simp: detect_anomalies_def detect_anomalies_body_cases except_Exception_def
        split: if_splits option.splits)
  let ?df = "select_kind sort_values ''expense'' df0"
  have ms: "mset ?df = mset ?E" using assms df0 by (rule select_kind_rows)
  have m: "mset (category_amounts ?df (a_category a)) = mset (category_amounts ?E (a_category a))"
    using ms by (rule category_amounts_mset)
  from r a df0 have "a \<in> set (concat (map (category_chunk ?df) (unique (map col_category ?df))))"
    by (auto simp: detect_anomalies_def detect_anomalies_body_cases except_Exception_def
        split: if_splits)
  then have "3 \<le> length (category_amounts ?df (a_category a)) \<and> std (category_amounts ?df (a_category a)) \<noteq> 0"
    by (rule set_all_chunks)
  then show "3 \<le> length (category_amounts ?E (a_category a))"
    and "std (category_amounts ?E (a_category a)) \<noteq> 0"
    using std_mset_cong [OF m] mset_eq_length [OF m] by simp_all
qed

text \<open>
  The request \<open>anomaly_example\<close>: only the expense of 24 in food is flagged, with the
  z-score 11/5; rent has no variation and misc too few expenses.
\<close>

lemma anomaly_frame:
  "DataFrame iso_to_datetime (transactions anomaly_example) =
     Some [row 12 2024 4 4 ''food'' ''expense'',
           row 500 2024 2 2 ''rent'' ''expense'',
           row 10 2024 2 3 ''food'' ''expense'',
           row 24 2024 3 14 ''food'' ''expense'',
           row 3000 2024 2 28 ''salary'' ''income'',
           row 500 2024 3 2 ''rent'' ''expense'',
           row 10 2024 2 17 ''food'' ''expense'',
           row 7 2024 3 20 ''misc'' ''expense'',
           row 12 2024 3 3 ''food'' ''expense'',
           row 500 2024 4 2 ''rent'' ''expense'',
           row 10 2024 4 9 ''food'' ''expense'']"
  by (simp add: anomaly_example_def parse_simps row_def)

lemma anomaly_sorted:
  "select_kind insertion_sort_values ''expense''
     [row 12 2024 4 4 ''food'' ''expense'',
           row 500 2024 2 2 ''rent'' ''expense'',
           row 10 2024 2 3 ''food'' ''expense'',
           row 24 2024 3 14 ''food'' ''expense'',
           row 3000 2024 2 28 ''salary'' ''income'',
           row 500 2024 3 2 ''rent'' ''expense'',
           row 10 2024 2 17 ''food'' ''expense'',
           row 7 2024 3 20 ''misc'' ''expense'',
           row 12 2024 3 3 ''food'' ''expense'',
           row 500 2024 4 2 ''rent'' ''expense'',
           row 10 2024 4 9 ''food'' ''expense'']
   = [row 500 2024 2 2 ''rent'' ''expense'',
      row 10 2024 2 3 ''food'' ''expense'',
      row 10 2024 2 17 ''food'' ''expense'',
      row 500 2024 3 2 ''rent'' ''expense'',
      row 12 2024 3 3 ''food'' ''expense'',
      row 24 2024 3 14 ''food'' ''expense'',
      row 7 2024 3 20 ''misc'' ''expense'',
      row 500 2024 4 2 ''rent'' ''expense'',
      row 12 2024 4 4 ''food'' ''expense'',
      row 10 2024 4 9 ''food'' ''expense'']"
  by (simp add: select_kind_def insertion_sort_values_def ts_key_def row_def)

lemma anomaly_example_nonempty: "transactions anomaly_example \<noteq> []"
  by (simp add: anomaly_example_def)

lemma anomaly_example_detected:
  "fst (detect_anomalies iso_to_datetime insertion_sort_values zero_noise anomaly_example)
     = Inr anomaly_example_response"
  unfolding detect_anomalies_def detect_anomalies_body_def
  by (simp add: anomaly_frame anomaly_sorted anomaly_example_nonempty Let_def)
     (simp add: row_def unique_def mean_def std_def z_scores_def iloc_def Let_def
        except_Exception_def anomaly_example_response_def anomaly_example_record_def
        str_nat.simps)



lemma shortfall_example_detected:
  "fst (detect_anomalies iso_to_datetime insertion_sort_values zero_noise shortfall_example)
     = Inr \<lparr>anomalies = [], total_anomalies = 0,
            a_message = ''Need at least 5 transactions for anomaly detection''\<rparr>"
  by (simp add: detect_anomalies_def detect_anomalies_body_def shortfall_example_def parse_simps
      select_kind_def insertion_sort_values_def ts_key_def Let_def except_Exception_def)

theorem total_anomalies_is_length_witness:
  "fst (detect_anomalies iso_to_datetime insertion_sort_values zero_noise anomaly_example)
     = Inr anomaly_example_response
   \<and> total_anomalies anomaly_example_response = length (anomalies anomaly_example_response)
   \<and> fst (detect_anomalies iso_to_datetime insertion_sort_values zero_noise shortfall_example)
     = Inr \<lparr>anomalies = [], total_anomalies = 0,
            a_message = ''Need at least 5 transactions for anomaly detection''\<rparr>
   \<and> total_anomalies \<lparr>anomalies = [], total_anomalies = 0,
            a_message = ''Need at least 5 transactions for anomaly detection''\<rparr>
     = length (anomalies \<lparr>anomalies = [], total_anomalies = 0,
            a_message = ''Need at least 5 transactions for anomaly detection''\<rparr>)"
  using total_anomalies_is_length [OF anomaly_example_detected]
    total_anomalies_is_length [OF shortfall_example_detected]
    anomaly_example_detected shortfall_example_detected
  by blast

lemma anomaly_example_record_listed:
  "anomaly_example_record \<in> set (anomalies anomaly_example_response)"
  by (simp add: anomaly_example_response_def)

theorem no_anomaly_without_variation_witness:
  "sorts_by_date insertion_sort_values
   \<and> fst (detect_anomalies iso_to_datetime insertion_sort_values zero_noise anomaly_example)
       = Inr anomaly_example_response
   \<and> anomaly_example_record \<in> set (anomalies anomaly_example_response)
   \<and> 3 \<le> length (category_amounts (rows_of_kind ''expense'' iso_to_datetime anomaly_example)
                     (a_category anomaly_example_record))
   \<and> std (category_amounts (rows_of_kind ''expense'' iso_to_datetime anomaly_example)
            (a_category anomaly_example_record)) \<noteq> 0
   \<and> fst (detect_anomalies_body iso_to_datetime insertion_sort_values zero_noise anomaly_example)
       \<noteq> Inl ZeroDivisionError"
  using no_anomaly_without_variation [OF sorts_by_date_insertion,
      of iso_to_datetime zero_noise anomaly_example]
    sorts_by_date_insertion anomaly_example_detected anomaly_example_record_listed
  by blast

lemma anomaly_example_food:
  "category_amounts (rows_of_kind ''expense'' iso_to_datetime anomaly_example) ''food''
     = [12, 10, 24, 10, 12, 10]
   \<and> mean [12, 10, 24, 10, 12, 10] = 13 \<and> std [12, 10, 24, 10, 12, 10] = 5"
  by (simp add: category_amounts_def rows_of_kind_def anomaly_frame row_def mean_def std_def)

subsection \<open>The projection of \<^verbatim>\<open>predict_expenses\<close>\<close>

text \<open>The two loops in closed form, for averages with distinct keys.\<close>

lemma update_fresh: "c \<notin> fst ` set al \<Longrightarrow> AList.update c v al = al @ [(c, v)]"
  by (induction al) auto

lemma category_loop_closed:
  "distinct (map fst avgs) \<Longrightarrow> fst ` set acc \<inter> fst ` set avgs = {} \<Longrightarrow>
   category_loop avgs acc tot (\<lambda>n. g (k + n)) =
     (acc @ perturb g k avgs, tot + sum_list (map snd (perturb g k avgs)),
      \<lambda>n. g (k + length avgs + n))"
proof (induction avgs arbitrary: acc tot k)
  case Nil
  then show ?case by (simp add: perturb_def)
next
  case (Cons x avgs)
  obtain c a where x: "x = (c, a)" by (cases x)
  have fresh: "c \<notin> fst ` set acc" using Cons.prems(2) x by auto
  have d: "distinct (map fst avgs)" using Cons.prems(1) by simp
  have disj: "fst ` set (acc @ [(c, a * (1 + g k))]) \<inter> fst ` set avgs = {}"
    using Cons.prems x by auto
  have shift: "(\<lambda>n. g (k + Suc n)) = (\<lambda>n. g (Suc k + n))" by simp
  have "category_loop (x # avgs) acc tot (\<lambda>n. g (k + n)) =
          category_loop avgs (acc @ [(c, a * (1 + g k))]) (tot + a * (1 + g k)) (\<lambda>n. g (Suc k + n))"
    by (simp add: x random_normal_def update_fresh [OF fresh] shift Let_def)
  also have "\<dots> = ((acc @ [(c, a * (1 + g k))]) @ perturb g (Suc k) avgs,
                    (tot + a * (1 + g k)) + sum_list (map snd (perturb g (Suc k) avgs)),
                    \<lambda>n. g (Suc k + length avgs + n))"
    by (rule Cons.IH [OF d disj])
  also have "\<dots> = (acc @ perturb g k (x # avgs), tot + sum_list (map snd (perturb g k (x # avgs))),
                    \<lambda>n. g (k + length (x # avgs) + n))"
    by (simp add: perturb_def x)
  finally show ?case .
qed

lemma month_loop_closed:
  "distinct (map fst avgs) \<Longrightarrow>
   month_loop is avgs last_month (\<lambda>n. g (k + n)) =
     (map (\<lambda>(m, i). monthly avgs last_month g (k + m * length avgs) i) (enumerate 0 is),
      \<lambda>n. g (k + length is * length avgs + n))"
proof (induction "is" arbitrary: k)
  case Nil
  then show ?case by simp
next
  case (Cons i "is")
  have cl: "category_loop avgs [] 0 (\<lambda>n. g (k + n)) =
          (perturb g k avgs, sum_list (map snd (perturb g k avgs)), \<lambda>n. g (k + length avgs + n))"
    using category_loop_closed [of avgs "[]" 0 g k] Cons.prems by simp
  have ih: "month_loop is avgs last_month (\<lambda>n. g (k + length avgs + n)) =
     (map (\<lambda>(m, i). monthly avgs last_month g (k + length avgs + m * length avgs) i) (enumerate 0 is),
      \<lambda>n. g (k + length avgs + length is * length avgs + n))"
    by (rule Cons.IH [OF Cons.prems])
  show ?case
    unfolding month_loop.simps cl prod.case ih
    by (simp add: enumerate_Suc_eq split_def add.assoc monthly_def)
qed

lemma category_avg_rows:
  assumes "mset df = mset E"
  shows "groupby col_category mean col_amount df = map (\<lambda>c. (c, category_mean E c)) (categories E)"
proof -
  have s: "set df = set E" using assms by (rule mset_eq_setD)
  have "\<And>c. mean (map col_amount (filter (\<lambda>r. col_category r = c) df)) = category_mean E c"
    unfolding category_mean_def
    using category_amounts_mset [OF assms] mean_mset_cong
    by (metis category_amounts_def)
  then show ?thesis
    by (simp add: groupby_def sort_remdups_map s categories_def)
qed

lemma last_month_rows:
  assumes "mset df = mset E" and "E \<noteq> []"
  shows "maximum (map col_month df) = Max (months E)"
proof -
  have s: "set df = set E" using assms(1) by (rule mset_eq_setD)
  have "df \<noteq> []" using assms by auto
  then have "maximum (map col_month df) = Max (set (map col_month df))"
    by (intro maximum_Max) simp
  then show ?thesis by (simp add: s months_def)
qed

lemma distinct_categories: "distinct (categories E)"
  by (simp add: categories_def)

lemma month_loop_rows:
  "month_loop [1, 2, 3] (map (\<lambda>c. (c, category_mean E c)) (categories E)) last_month g =
     (map (predicted E g last_month) [0, 1, 2], \<lambda>n. g (3 * length (categories E) + n))"
proof -
  let ?avgs = "map (\<lambda>c. (c, category_mean E c)) (categories E)"
  have d: "distinct (map fst ?avgs)" by (simp add: comp_def distinct_categories)
  have h: "month_loop [1, 2, 3] ?avgs last_month (\<lambda>n. g (0 + n)) =
     (map (\<lambda>(m, i). monthly ?avgs last_month g (0 + m * length ?avgs) i) (enumerate 0 [1, 2, 3]),
      \<lambda>n. g (0 + length [1::nat, 2, 3] * length ?avgs + n))"
    using d by (rule month_loop_closed)
  have e: "(\<lambda>n. g (0 + n)) = g" by simp
  have rhs: "(map (\<lambda>(m, i). monthly ?avgs last_month g (0 + m * length ?avgs) i) (enumerate 0 [1, 2, 3]),
      \<lambda>n. g (0 + length [1::nat, 2, 3] * length ?avgs + n))
     = (map (predicted E g last_month) [0, 1, 2], \<lambda>n. g (3 * length (categories E) + n))"
  proof -
    have three: "3 * n = n + (n + n)" for n :: nat by simp
    show ?thesis by (simp add: monthly_def predicted_def projected_def mult_2 three)
  qed
  show ?thesis using h unfolding e rhs .
qed

lemma predict_expenses_rows:
  assumes "sorts_by_date sort_values"
    and "3 \<le> length (rows_of_kind ''expense'' to_datetime data)"
  shows "predict_expenses to_datetime sort_values g data =
     (Inr \<lparr>predictions =
             map (predicted (rows_of_kind ''expense'' to_datetime data) g
                    (Max (months (rows_of_kind ''expense'' to_datetime data)))) [0, 1, 2],
           model_accuracy = Some (80 / 100),
           message = ''Predictions generated successfully''\<rparr>,
      \<lambda>n. g (3 * length (categories (rows_of_kind ''expense'' to_datetime data)) + n))"
proof -
  let ?E = "rows_of_kind ''expense'' to_datetime data"
  have E: "?E \<noteq> []" using assms(2) by auto
  then obtain df0 where df0: "DataFrame to_datetime (transactions data) = Some df0"
    and ne: "transactions data \<noteq> []"
    by (rule rows_of_kind_frame)
  let ?df = "select_kind sort_values ''expense'' df0"
  have ms: "mset ?df = mset ?E" using assms(1) df0 by (rule select_kind_rows)
  have len: "length ?df = length ?E" using ms by (rule mset_eq_length)
  have avg: "groupby col_category mean col_amount ?df = map (\<lambda>c. (c, category_mean ?E c)) (categories ?E)"
    using ms by (rule category_avg_rows)
  have last: "maximum (map col_month ?df) = Max (months ?E)"
    using ms E by (rule last_month_rows)
  show ?thesis
    using assms(2) ne
    by (simp add: predict_expenses_def predict_expenses_body_def df0 Let_def len avg last
        month_loop_rows except_Exception_def del: month_loop.simps One_nat_def)
qed

lemma predict_expenses_few:
  assumes "sorts_by_date sort_values"
    and "fst (predict_expenses to_datetime sort_values g data) = Inr r"
    and "\<not> 3 \<le> length (rows_of_kind ''expense'' to_datetime data)"
  shows "predictions r = []"
proof -
  from assms(2) obtain df0 where df0: "DataFrame to_datetime (transactions data) = Some df0"
    by (auto simp: predict_expenses_def predict_expenses_body_def except_Exception_def
        split: if_splits option.splits)
  have "length (select_kind sort_values ''expense'' df0) = length (rows_of_kind ''expense'' to_datetime data)"
    using select_kind_rows [OF assms(1) df0] by (rule mset_eq_length)
  with assms(2,3) df0 show ?thesis
    by (auto simp: predict_expenses_def predict_expenses_body_def except_Exception_def Let_def
        split: if_splits)
qed

lemma map_fst_perturb: "map fst (perturb g k avgs) = map fst avgs"
  by (induction avgs arbitrary: k) (simp_all add: perturb_def split_def)

lemma perturb_zero: "\<forall>n. g n = 0 \<Longrightarrow> perturb g k avgs = avgs"
  by (induction avgs arbitrary: k) (simp_all add: perturb_def split_def)

text \<open>
  C3. For every request with at least 3 expense transactions, \<^verbatim>\<open>predict_expenses\<close> returns
  predictions for exactly the 3 months that follow the latest month of an expense. In
  each of them the keys of \<^verbatim>\<open>by_category\<close> are exactly the categories observed among the
  expenses, each once, and its values are the predicted amounts \<open>projected\<close>, that is
  \<open>category_mean \<times> (1 + \<epsilon>)\<close>, reported to 2 decimals. With the noise \<open>\<epsilon> = 0\<close> the predicted
  amount of a category is the mean of the amounts of all its expenses.
\<close>

theorem predict_expenses_next_months:
  assumes "sorts_by_date sort_values"
    and "3 \<le> length (rows_of_kind ''expense'' to_datetime data)"
  shows "\<exists>r g'. predict_expenses to_datetime sort_values g data = (Inr r, g')
     \<and> map month (predictions r) =
         [Max (months (rows_of_kind ''expense'' to_datetime data)) + 1,
          Max (months (rows_of_kind ''expense'' to_datetime data)) + 2,
          Max (months (rows_of_kind ''expense'' to_datetime data)) + 3]
     \<and> (\<forall>i<3. map fst (by_category (predictions r ! i))
                 = categories (rows_of_kind ''expense'' to_datetime data)
              \<and> by_category (predictions r ! i)
                 = map (\<lambda>(c, v). (c, round2 v)) (projected (rows_of_kind ''expense'' to_datetime data) g i))
     \<and> ((\<forall>n. g n = 0) \<longrightarrow>
          (\<forall>i. projected (rows_of_kind ''expense'' to_datetime data) g i
                 = map (\<lambda>c. (c, category_mean (rows_of_kind ''expense'' to_datetime data) c))
                     (categories (rows_of_kind ''expense'' to_datetime data))))"
proof -
  let ?E = "rows_of_kind ''expense'' to_datetime data"
  let ?r = "\<lparr>predictions = map (predicted ?E g (Max (months ?E))) [0, 1, 2],
            model_accuracy = Some (80 / 100),
            message = ''Predictions generated successfully''\<rparr>"
  have p: "predict_expenses to_datetime sort_values g data =
      (Inr ?r, \<lambda>n. g (3 * length (categories ?E) + n))"
    using assms by (rule predict_expenses_rows)
  have m: "map month (predictions ?r) = [Max (months ?E) + 1, Max (months ?E) + 2, Max (months ?E) + 3]"
    by (simp add: predicted_def)
  have keys: "map fst (projected ?E g i) = categories ?E" for i
    by (simp add: projected_def map_fst_perturb comp_def)
  have b: "\<forall>i<3. map fst (by_category (predictions ?r ! i)) = categories ?E
        \<and> by_category (predictions ?r ! i) = map (\<lambda>(c, v). (c, round2 v)) (projected ?E g i)"
  proof (intro allI impI)
    fix i :: nat assume "i < 3"
    then have "i = 0 \<or> i = 1 \<or> i = 2" by auto
    then have "by_category (predictions ?r ! i) = map (\<lambda>(c, v). (c, round2 v)) (projected ?E g i)"
      by (auto simp: predicted_def)
    then show "map fst (by_category (predictions ?r ! i)) = categories ?E
        \<and> by_category (predictions ?r ! i) = map (\<lambda>(c, v). (c, round2 v)) (projected ?E g i)"
      using keys [of i] by (simp add: comp_def split_def)
  qed
  have z: "(\<forall>n. g n = 0) \<longrightarrow>
          (\<forall>i. projected ?E g i = map (\<lambda>c. (c, category_mean ?E c)) (categories ?E))"
  proof (intro impI allI)
    fix i assume "\<forall>n. g n = 0"
    then show "projected ?E g i = map (\<lambda>c. (c, category_mean ?E c)) (categories ?E)"
      by (simp add: projected_def perturb_zero)
  qed
  show ?thesis
    by (rule exI [of _ ?r], rule exI [of _ "\<lambda>n. g (3 * length (categories ?E) + n)"])
       (intro conjI p m b z)
qed

text \<open>
  C10. In every prediction of a response of \<^verbatim>\<open>predict_expenses\<close>,
  \<^verbatim>\<open>total_predicted_expenses\<close> is the sum of the unrounded predicted amounts of the
  categories, rounded to 2 decimals, and each value of \<^verbatim>\<open>by_category\<close> is the predicted
  amount of its category rounded to 2 decimals. The reported total may therefore differ
  from the sum of the reported values: for \<open>rounding_example\<close> the total is 0.01 and every
  reported value is 0 (\<open>predict_expenses_rounding_witness\<close>).
\<close>

theorem predict_expenses_rounding:
  assumes "sorts_by_date sort_values"
    and "fst (predict_expenses to_datetime sort_values g data) = Inr r"
    and "i < length (predictions r)"
  shows "total_predicted_expenses (predictions r ! i)
           = round2 (sum_list (map snd (projected (rows_of_kind ''expense'' to_datetime data) g i)))
     \<and> by_category (predictions r ! i)
           = map (\<lambda>(c, v). (c, round2 v)) (projected (rows_of_kind ''expense'' to_datetime data) g i)"
proof (cases "3 \<le> length (rows_of_kind ''expense'' to_datetime data)")
  case False
  with assms(1,2) have "predictions r = []" by (rule predict_expenses_few)
  with assms(3) show ?thesis by simp
next
  case True
  let ?E = "rows_of_kind ''expense'' to_datetime data"
  have "fst (predict_expenses to_datetime sort_values g data) =
      Inr \<lparr>predictions = map (predicted ?E g (Max (months ?E))) [0, 1, 2],
           model_accuracy = Some (80 / 100),
           message = ''Predictions generated successfully''\<rparr>"
    by (simp only: predict_expenses_rows [OF assms(1) True] fst_conv)
  with assms(2) have r: "predictions r = map (predicted ?E g (Max (months ?E))) [0, 1, 2]"
    by auto
  with assms(3) have "i = 0 \<or> i = 1 \<or> i = 2" by auto
  then show ?thesis
    by (auto simp: r predicted_def)
qed

text \<open>
  The request \<open>spending_example\<close> under two generators: both categories have the mean 30;
  with the samples 0 every month predicts 30 and 30, with the samples 1/10 it predicts 33
  and 33.
\<close>

lemma spending_predicted_zero:
  "fst (predict_expenses iso_to_datetime insertion_sort_values zero_noise spending_example) =
     Inr \<lparr>predictions =
            [Monthly 24292 60 [(''food'', 30), (''rent'', 30)],
             Monthly 24293 60 [(''food'', 30), (''rent'', 30)],
             Monthly 24294 60 [(''food'', 30), (''rent'', 30)]],
          model_accuracy = Some (80 / 100),
          message = ''Predictions generated successfully''\<rparr>"
  by (simp add: predict_expenses_def predict_expenses_body_def spending_frame
      spending_nonempty insertion_sort_values_def zero_noise_def random_normal_def
      except_Exception_def select_kind_def ts_key_def groupby_def col_month_def to_period_M_def
      mean_def maximum_def round2_def Let_def)

lemma spending_predicted_tenth:
  "fst (predict_expenses iso_to_datetime insertion_sort_values tenth_noise spending_example) =
     Inr \<lparr>predictions =
            [Monthly 24292 66 [(''food'', 33), (''rent'', 33)],
             Monthly 24293 66 [(''food'', 33), (''rent'', 33)],
             Monthly 24294 66 [(''food'', 33), (''rent'', 33)]],
          model_accuracy = Some (80 / 100),
          message = ''Predictions generated successfully''\<rparr>"
  by (simp add: predict_expenses_def predict_expenses_body_def spending_frame
      spending_nonempty insertion_sort_values_def tenth_noise_def random_normal_def
      except_Exception_def select_kind_def ts_key_def groupby_def col_month_def to_period_M_def
      mean_def maximum_def round2_def Let_def)

lemma predict_expenses_reads_generator:
  "fst (predict_expenses iso_to_datetime insertion_sort_values zero_noise spending_example)
     \<noteq> fst (predict_expenses iso_to_datetime insertion_sort_values tenth_noise spending_example)"
  by (simp add: spending_predicted_zero spending_predicted_tenth)

lemma rounding_example_predicted:
  "fst (predict_expenses iso_to_datetime insertion_sort_values zero_noise rounding_example) =
     Inr rounding_example_response"
  by (simp add: predict_expenses_def predict_expenses_body_def rounding_example_def parse_simps
      rounding_example_response_def insertion_sort_values_def zero_noise_def random_normal_def
      except_Exception_def select_kind_def ts_key_def groupby_def col_month_def to_period_M_def
      mean_def maximum_def round2_def Let_def)

theorem predict_expenses_next_months_witness:
  "sorts_by_date insertion_sort_values
   \<and> 3 \<le> length (rows_of_kind ''expense'' iso_to_datetime spending_example)
   \<and> (\<exists>r g'. predict_expenses iso_to_datetime insertion_sort_values zero_noise spending_example = (Inr r, g')
     \<and> map month (predictions r) =
         [Max (months (rows_of_kind ''expense'' iso_to_datetime spending_example)) + 1,
          Max (months (rows_of_kind ''expense'' iso_to_datetime spending_example)) + 2,
          Max (months (rows_of_kind ''expense'' iso_to_datetime spending_example)) + 3]
     \<and> (\<forall>i<3. map fst (by_category (predictions r ! i))
                 = categories (rows_of_kind ''expense'' iso_to_datetime spending_example)
              \<and> by_category (predictions r ! i)
                 = map (\<lambda>(c, v). (c, round2 v))
                     (projected (rows_of_kind ''expense'' iso_to_datetime spending_example) zero_noise i))
     \<and> ((\<forall>n. zero_noise n = 0) \<longrightarrow>
          (\<forall>i. projected (rows_of_kind ''expense'' iso_to_datetime spending_example) zero_noise i
                 = map (\<lambda>c. (c, category_mean (rows_of_kind ''expense'' iso_to_datetime spending_example) c))
                     (categories (rows_of_kind ''expense'' iso_to_datetime spending_example)))))"
proof -
  have a: "sorts_by_date insertion_sort_values" by (rule sorts_by_date_insertion)
  have b: "3 \<le> length (rows_of_kind ''expense'' iso_to_datetime spending_example)"
    by (simp add: spending_length)
  show ?thesis
    by (rule conjI [OF a conjI [OF b predict_expenses_next_months [OF a b, of zero_noise]]])
qed

lemma rounding_example_length: "0 < length (predictions rounding_example_response)"
  by (simp add: rounding_example_response_def)

lemma rounding_example_differs:
  "total_predicted_expenses (predictions rounding_example_response ! 0) = 1 / 100
   \<and> sum_list (map snd (by_category (predictions rounding_example_response ! 0))) = 0"
  by (simp add: rounding_example_response_def)

theorem predict_expenses_rounding_witness:
  "sorts_by_date insertion_sort_values
   \<and> fst (predict_expenses iso_to_datetime insertion_sort_values zero_noise rounding_example)
       = Inr rounding_example_response
   \<and> 0 < length (predictions rounding_example_response)
   \<and> (total_predicted_expenses (predictions rounding_example_response ! 0)
           = round2 (sum_list (map snd
               (projected (rows_of_kind ''expense'' iso_to_datetime rounding_example) zero_noise 0)))
     \<and> by_category (predictions rounding_example_response ! 0)
           = map (\<lambda>(c, v). (c, round2 v))
               (projected (rows_of_kind ''expense'' iso_to_datetime rounding_example) zero_noise 0))
   \<and> (total_predicted_expenses (predictions rounding_example_response ! 0) = 1 / 100
     \<and> sum_list (map snd (by_category (predictions rounding_example_response ! 0))) = 0)"
  by (intro conjI sorts_by_date_insertion rounding_example_predicted rounding_example_length
      predict_expenses_rounding [OF sorts_by_date_insertion rounding_example_predicted
        rounding_example_length, THEN conjunct1]
      predict_expenses_rounding [OF sorts_by_date_insertion rounding_example_predicted
        rounding_example_length, THEN conjunct2]
      rounding_example_differs [THEN conjunct1] rounding_example_differs [THEN conjunct2])

lemma categories_sort: "categories rs = sort (remdups (map col_category rs))"
  by (simp add: categories_def sort_remdups_map)

lemma spending_categories:
  "categories (rows_of_kind ''expense'' iso_to_datetime spending_example) = [''food'', ''rent'']
   \<and> category_mean (rows_of_kind ''expense'' iso_to_datetime spending_example) ''food'' = 30
   \<and> category_mean (rows_of_kind ''expense'' iso_to_datetime spending_example) ''rent'' = 30"
  by (simp add: categories_sort rows_of_kind_def spending_frame category_mean_def
      category_amounts_def mean_def)

end
